theory Spec2Isabelle
  imports Complex_Main "HOL-Library.AList" "HOL-Library.List_Lexorder" "HOL-Library.Char_ord"
begin

section \<open>Data model of voting_system.py\<close>

text \<open>
  Python \<^verbatim>\<open>str\<close> values are byte lists (UTF-8); Python's \<^verbatim>\<open><\<close> on \<^verbatim>\<open>str\<close> is the
  lexicographic order on code points, which on UTF-8 bytes is the lexicographic order of
  \<^theory_text>\<open>List_Lexorder\<close> over \<^theory_text>\<open>Char_ord\<close>. Timestamps are ISO-8601 strings
  and are compared as strings, as the source does.
\<close>

record Ballot =
  id :: string
  title :: string
  description :: string
  options :: "string list"
  start_time :: string
  end_time :: string
  is_active :: bool
  created_at :: string

record Vote =
  id :: string
  voter_id :: string
  ballot_id :: string
  choice :: string
  timestamp :: string
  signature :: string

text \<open>
  The SQLite file: three tables, each a list of rows in insertion order. A row of
  \<^verbatim>\<open>eligible_voters\<close> is \<open>(voter_id, ballot_id, registered_at)\<close>.
  \<^verbatim>\<open>CREATE TABLE IF NOT EXISTS\<close> keeps an existing table as it is and a missing table
  reads as an empty one, so \<^verbatim>\<open>init_db\<close> changes nothing in this representation.
  A ballot row holds \<open>options\<close> as JSON text and \<open>is_active\<close> as an integer;
  \<^verbatim>\<open>to_row\<close> followed by \<^verbatim>\<open>from_row\<close> gives the ballot back, so the table holds the
  ballots themselves.
\<close>

record db =
  ballots :: "Ballot list"
  votes :: "Vote list"
  eligible_voters :: "(string \<times> string \<times> string) list"

definition empty_db :: db where
  "empty_db = \<lparr>ballots = [], votes = [], eligible_voters = []\<rparr>"

text \<open>
  Every domain failure of the module is a \<^verbatim>\<open>ValueError\<close> with a message; a violated
  table constraint is \<^verbatim>\<open>sqlite3.IntegrityError\<close>, which the module never catches.
\<close>

datatype error = ValueError string | IntegrityError

text \<open>
  What the module calls and does not define: \<^verbatim>\<open>hashlib.sha256(...).hexdigest()\<close>,
  the \<^verbatim>\<open>repr\<close> of a list of strings that an f-string inserts, and the float expression
  \<^verbatim>\<open>round(100 * cnt / total, 2)\<close>. The clock reading
  \<^verbatim>\<open>datetime.now(timezone.utc).isoformat()\<close> and the draw \<^verbatim>\<open>str(uuid.uuid4())[:8]\<close>
  are arguments \<open>now\<close> and \<open>uuid8\<close> of each operation that reads them.
\<close>

record pylib =
  sha256_hexdigest :: "string \<Rightarrow> string"
  repr :: "string list \<Rightarrow> string"
  round_percent :: "int \<Rightarrow> int \<Rightarrow> real"

definition apos :: string where
  "apos = [CHR 0x27]"

section \<open>Crypto helpers\<close>

text \<open>The string \<^verbatim>\<open>raw\<close> of \<^verbatim>\<open>_sign\<close>, and \<^verbatim>\<open>_sign\<close> itself.\<close>

definition sign_raw :: "string \<Rightarrow> string \<Rightarrow> string \<Rightarrow> string \<Rightarrow> string" where
  "sign_raw v_id b_id ch ts = v_id @ '':'' @ b_id @ '':'' @ ch @ '':'' @ ts"

definition sign :: "pylib \<Rightarrow> string \<Rightarrow> string \<Rightarrow> string \<Rightarrow> string \<Rightarrow> string" where
  "sign py v_id b_id ch ts = sha256_hexdigest py (sign_raw v_id b_id ch ts)"


section \<open>Storage statements\<close>

text \<open>\<^verbatim>\<open>INSERT INTO ballots\<close> under \<^verbatim>\<open>id TEXT PRIMARY KEY\<close>.\<close>

definition insert_ballot :: "db \<Rightarrow> Ballot \<Rightarrow> error + db" where
  "insert_ballot d b =
     (if Ballot.id b \<in> set (map Ballot.id (ballots d)) then Inl IntegrityError
      else Inr (d\<lparr>ballots := ballots d @ [b]\<rparr>))"

text \<open>
  \<^verbatim>\<open>INSERT INTO votes\<close> under \<^verbatim>\<open>id TEXT PRIMARY KEY\<close> and
  \<^verbatim>\<open>UNIQUE(voter_id, ballot_id)\<close>.
\<close>

definition insert_vote :: "db \<Rightarrow> Vote \<Rightarrow> error + db" where
  "insert_vote d v =
     (if Vote.id v \<in> set (map Vote.id (votes d))
         \<or> (voter_id v, Vote.ballot_id v)
              \<in> set (map (\<lambda>w. (voter_id w, Vote.ballot_id w)) (votes d))
      then Inl IntegrityError
      else Inr (d\<lparr>votes := votes d @ [v]\<rparr>))"

section \<open>Core API\<close>

definition create_ballot ::
  "string \<Rightarrow> string \<Rightarrow> db \<Rightarrow> string \<Rightarrow> string \<Rightarrow> string list \<Rightarrow> string \<Rightarrow> string
     \<Rightarrow> (error + Ballot) \<times> db" where
  "create_ballot now uuid8 d ttl descr opts st et =
     (if length opts < 2 then (Inl (ValueError ''A ballot must have at least 2 options.''), d)
      else
        let ballot = \<lparr>Ballot.id = uuid8, title = ttl, description = descr, options = opts,
                       start_time = st, end_time = et, is_active = True, created_at = now\<rparr>
        in (case insert_ballot d ballot of
              Inl e \<Rightarrow> (Inl e, d)
            | Inr d' \<Rightarrow> (Inr ballot, d')))"

text \<open>\<^verbatim>\<open>INSERT OR IGNORE\<close> under \<^verbatim>\<open>PRIMARY KEY(voter_id, ballot_id)\<close>.\<close>

definition register_voter :: "string \<Rightarrow> db \<Rightarrow> string \<Rightarrow> string \<Rightarrow> (error + unit) \<times> db" where
  "register_voter now d v_id b_id =
     (Inr (),
      if (v_id, b_id) \<in> set (map (\<lambda>(v, b, r). (v, b)) (eligible_voters d)) then d
      else d\<lparr>eligible_voters := eligible_voters d @ [(v_id, b_id, now)]\<rparr>)"

definition validate_eligibility :: "db \<Rightarrow> string \<Rightarrow> string \<Rightarrow> bool" where
  "validate_eligibility d v_id b_id =
     (find (\<lambda>(v, b, r). v = v_id \<and> b = b_id) (eligible_voters d) \<noteq> None)"

definition get_ballot :: "db \<Rightarrow> string \<Rightarrow> Ballot option" where
  "get_ballot d b_id = find (\<lambda>b. Ballot.id b = b_id) (ballots d)"

definition cast_vote ::
  "pylib \<Rightarrow> string \<Rightarrow> string \<Rightarrow> db \<Rightarrow> string \<Rightarrow> string \<Rightarrow> string \<Rightarrow> (error + Vote) \<times> db" where
  "cast_vote py now uuid8 d b_id v_id ch =
     (case find (\<lambda>b. Ballot.id b = b_id) (ballots d) of
        None \<Rightarrow> (Inl (ValueError (''Ballot '' @ apos @ b_id @ apos @ '' not found.'')), d)
      | Some ballot \<Rightarrow>
          if \<not> is_active ballot then
            (Inl (ValueError (''Ballot '' @ apos @ b_id @ apos @ '' is closed.'')), d)
          else if now < start_time ballot then
            (Inl (ValueError ''Voting window has not opened yet.''), d)
          else if now > end_time ballot then
            (Inl (ValueError ''Voting window has closed.''), d)
          else if ch \<notin> set (options ballot) then
            (Inl (ValueError (''Invalid choice '' @ apos @ ch @ apos @ ''. Valid: ''
                                @ repr py (options ballot))), d)
          else if \<not> validate_eligibility d v_id b_id then
            (Inl (ValueError (''Voter '' @ apos @ v_id @ apos
                                @ '' is not registered for ballot '' @ apos @ b_id @ apos @ ''.'')), d)
          else if find (\<lambda>v. voter_id v = v_id \<and> Vote.ballot_id v = b_id) (votes d) \<noteq> None then
            (Inl (ValueError (''Voter '' @ apos @ v_id @ apos
                                @ '' has already voted on ballot '' @ apos @ b_id @ apos @ ''.'')), d)
          else
            let vote = \<lparr>Vote.id = uuid8, voter_id = v_id, ballot_id = b_id, choice = ch,
                         timestamp = now, signature = sign py v_id b_id ch now\<rparr>
            in (case insert_vote d vote of
                  Inl e \<Rightarrow> (Inl e, d)
                | Inr d' \<Rightarrow> (Inr vote, d')))"

section \<open>Tally and export\<close>

text \<open>
  A Python \<^verbatim>\<open>dict\<close> keeps its keys in insertion order: an association list, where
  \<^verbatim>\<open>d[k] = v\<close> is \<^const>\<open>AList.update\<close> (in place for a key already there, appended
  otherwise) and \<^verbatim>\<open>d.get(k)\<close> is \<^const>\<open>map_of\<close>.
\<close>

record Summary =
  ballot_id :: string
  title :: string
  total_votes :: int
  counts :: "(string \<times> int) list"
  percentages :: "(string \<times> real) list"
  winner :: "string option"

text \<open>The loop \<^verbatim>\<open>for vrow in ...: c = vrow["choice"]; if c in counts: counts[c] += 1\<close>.\<close>

definition count_votes :: "(string \<times> int) list \<Rightarrow> string list \<Rightarrow> (string \<times> int) list" where
  "count_votes cnts0 cs =
     fold (\<lambda>c cnts. case map_of cnts c of
                       None \<Rightarrow> cnts
                     | Some n \<Rightarrow> AList.update c (n + 1) cnts) cs cnts0"

text \<open>
  \<^verbatim>\<open>max(counts, key=counts.get)\<close>: the first key is the candidate, and a later key
  replaces it only when its value is strictly greater. On an empty dict \<^verbatim>\<open>max\<close>
  raises a \<^verbatim>\<open>ValueError\<close>, which is \<open>None\<close> here; \<open>tally\<close> calls it only when the
  total is not zero, and then the dict is not empty.
\<close>

fun max_from :: "'k \<Rightarrow> int \<Rightarrow> ('k \<times> int) list \<Rightarrow> 'k" where
  "max_from m mv [] = m"
| "max_from m mv ((k, v) # kvs) = (if v > mv then max_from k v kvs else max_from m mv kvs)"

definition py_max_key :: "('k \<times> int) list \<Rightarrow> 'k option" where
  "py_max_key kvs = (case kvs of [] \<Rightarrow> None | (k, v) # rest \<Rightarrow> Some (max_from k v rest))"

definition tally :: "pylib \<Rightarrow> db \<Rightarrow> string \<Rightarrow> error + Summary" where
  "tally py d b_id =
     (case find (\<lambda>b. Ballot.id b = b_id) (ballots d) of
        None \<Rightarrow> Inl (ValueError (''Ballot '' @ apos @ b_id @ apos @ '' not found.''))
      | Some ballot \<Rightarrow>
          let cnts0 = fold (\<lambda>opt cnts. AList.update opt 0 cnts) (options ballot) [];
              cnts = count_votes cnts0
                       (map choice (filter (\<lambda>v. Vote.ballot_id v = b_id) (votes d)));
              total = sum_list (map snd cnts);
              pcts = fold (\<lambda>(opt, cnt) p.
                             AList.update opt
                               (if total \<noteq> 0 then round_percent py cnt total else 0) p)
                          cnts []
          in if total \<noteq> 0 then
               (case py_max_key cnts of
                  None \<Rightarrow> Inl (ValueError ''max() arg is an empty sequence'')
                | Some w \<Rightarrow>
                    Inr \<lparr>Summary.ballot_id = b_id, title = Ballot.title ballot,
                         total_votes = total, counts = cnts, percentages = pcts,
                         winner = Some w\<rparr>)
             else
               Inr \<lparr>Summary.ballot_id = b_id, title = Ballot.title ballot,
                    total_votes = total, counts = cnts, percentages = pcts,
                    winner = None\<rparr>)"

text \<open>
  \<^verbatim>\<open>export_results\<close> up to the serialisers: the value handed to \<^verbatim>\<open>json.dumps\<close>, or the
  rows handed to \<^verbatim>\<open>csv.writer\<close>, header first.
\<close>

datatype export_doc = JsonDoc Summary "Vote list" | CsvDoc "string list list"

definition export_results :: "pylib \<Rightarrow> db \<Rightarrow> string \<Rightarrow> string \<Rightarrow> error + export_doc" where
  "export_results py d b_id fmt =
     (case tally py d b_id of
        Inl e \<Rightarrow> Inl e
      | Inr summary \<Rightarrow>
          let vs = filter (\<lambda>v. Vote.ballot_id v = b_id) (votes d)
          in if fmt = ''json'' then Inr (JsonDoc summary vs)
             else if fmt = ''csv'' then
               Inr (CsvDoc ([''voter_id'', ''ballot_id'', ''choice'', ''timestamp'', ''signature'']
                            # map (\<lambda>v. [voter_id v, Vote.ballot_id v, choice v, timestamp v,
                                        signature v]) vs))
             else Inl (ValueError (''Unknown format '' @ apos @ fmt @ apos @ ''. Use ''
                                     @ apos @ ''json'' @ apos @ '' or '' @ apos @ ''csv''
                                     @ apos @ ''.'')))"

text \<open>\<^verbatim>\<open>UPDATE ballots SET is_active=0 WHERE id=?\<close>: no lookup, nothing raised.\<close>

definition close_ballot :: "db \<Rightarrow> string \<Rightarrow> (error + unit) \<times> db" where
  "close_ballot d b_id =
     (Inr (),
      d\<lparr>ballots := map (\<lambda>b. if Ballot.id b = b_id then b\<lparr>is_active := False\<rparr> else b)
                        (ballots d)\<rparr>)"

section \<open>Reachable stores\<close>

text \<open>The stores that the four writing operations produce from the empty database.\<close>

inductive reachable :: "db \<Rightarrow> bool" where
  r_empty: "reachable empty_db"
| r_create: "reachable d \<Longrightarrow> reachable (snd (create_ballot now uuid8 d ttl descr opts st et))"
| r_register: "reachable d \<Longrightarrow> reachable (snd (register_voter now d v_id b_id))"
| r_cast: "reachable d \<Longrightarrow> reachable (snd (cast_vote py now uuid8 d b_id v_id ch))"
| r_close: "reachable d \<Longrightarrow> reachable (snd (close_ballot d b_id))"

section \<open>Store invariants\<close>

text \<open>At most one vote per \<open>(voter_id, ballot_id)\<close>.\<close>

definition one_vote_per_pair :: "db \<Rightarrow> bool" where
  "one_vote_per_pair d = distinct (map (\<lambda>w. (voter_id w, Vote.ballot_id w)) (votes d))"

text \<open>
  Ballot ids are pairwise different and every vote's choice is an option of the ballot
  the vote names.
\<close>

definition store_consistent :: "db \<Rightarrow> bool" where
  "store_consistent d =
     (distinct (map Ballot.id (ballots d))
      \<and> (\<forall>v \<in> set (votes d). \<exists>b \<in> set (ballots d).
            Ballot.id b = Vote.ballot_id v \<and> choice v \<in> set (options b)))"

section \<open>Example stores\<close>

abbreviation B1 :: string where "B1 \<equiv> ''a3f1c9e2''"
abbreviation B2 :: string where "B2 \<equiv> ''5e0d7b16''"
abbreviation K1 :: string where "K1 \<equiv> ''0b7d44aa''"
abbreviation K2 :: string where "K2 \<equiv> ''9c2e81f3''"
abbreviation T_created :: string where "T_created \<equiv> ''2025-12-01T09:30:00.120000+00:00''"
abbreviation T_open :: string where "T_open \<equiv> ''2026-01-01T00:00:00+00:00''"
abbreviation T_close :: string where "T_close \<equiv> ''2026-12-31T00:00:00+00:00''"
abbreviation T_mid :: string where "T_mid \<equiv> ''2026-06-01T12:00:00.000250+00:00''"

definition b1 :: Ballot where
  "b1 = \<lparr>Ballot.id = B1, title = ''Budget'', description = ''Adopt the budget'',
         options = [''Yes'', ''No''], start_time = T_open, end_time = T_close,
         is_active = True, created_at = T_created\<rparr>"

definition v1 :: Vote where
  "v1 = \<lparr>Vote.id = K1, voter_id = ''alice'', ballot_id = B1, choice = ''Yes'',
         timestamp = T_mid, signature = ''5d41''\<rparr>"


definition ex_registered :: db where
  "ex_registered = \<lparr>ballots = [b1], votes = [], eligible_voters = [(''alice'', B1, T_created)]\<rparr>"

definition ex_voted :: db where
  "ex_voted = \<lparr>ballots = [b1], votes = [v1], eligible_voters = [(''alice'', B1, T_created)]\<rparr>"

definition vote_a :: "pylib \<Rightarrow> Vote" where
  "vote_a py = \<lparr>Vote.id = K1, voter_id = ''alice'', ballot_id = B1, choice = ''Yes'',
                timestamp = T_mid, signature = sign py ''alice'' B1 ''Yes'' T_mid\<rparr>"

definition vote_b :: "pylib \<Rightarrow> Vote" where
  "vote_b py = \<lparr>Vote.id = K2, voter_id = ''alice'', ballot_id = B1, choice = ''No'',
                timestamp = T_mid, signature = sign py ''alice'' B1 ''No'' T_mid\<rparr>"

definition ex_cast :: "pylib \<Rightarrow> db" where
  "ex_cast py =
     \<lparr>ballots = [b1], votes = [vote_a py], eligible_voters = [(''alice'', B1, T_created)]\<rparr>"



definition ex_foreign_choice :: db where
  "ex_foreign_choice =
     \<lparr>ballots = [b1], votes = [v1\<lparr>choice := ''Maybe''\<rparr>],
      eligible_voters = [(''alice'', B1, T_created)]\<rparr>"

section \<open>Closing a ballot\<close>




section \<open>A rejected cast writes nothing\<close>

text \<open>
  C7. Whenever \<open>cast_vote\<close> fails, with whatever error, the store it leaves is the store
  it was called on: the votes, the ballots and the eligibility records are unchanged.
\<close>

theorem cast_vote_failure_keeps_store:
  "fst (cast_vote py now uuid8 d b_id v_id ch) = Inl e
     \<Longrightarrow> snd (cast_vote py now uuid8 d b_id v_id ch) = d"
  by (auto simp: cast_vote_def Let_def split: option.splits if_splits sum.splits)

theorem cast_vote_failure_keeps_store_witness:
  "\<forall>py. fst (cast_vote py T_mid K2 ex_voted B1 ''alice'' ''No'')
           = Inl (ValueError (''Voter '' @ apos @ ''alice'' @ apos
                    @ '' has already voted on ballot '' @ apos @ B1 @ apos @ ''.''))
        \<and> snd (cast_vote py T_mid K2 ex_voted B1 ''alice'' ''No'') = ex_voted"
proof
  fix py
  have f: "fst (cast_vote py T_mid K2 ex_voted B1 ''alice'' ''No'')
           = Inl (ValueError (''Voter '' @ apos @ ''alice'' @ apos
                    @ '' has already voted on ballot '' @ apos @ B1 @ apos @ ''.''))"
    by (simp add: cast_vote_def ex_voted_def b1_def v1_def validate_eligibility_def)
  from f cast_vote_failure_keeps_store [OF f] show
    "fst (cast_vote py T_mid K2 ex_voted B1 ''alice'' ''No'')
           = Inl (ValueError (''Voter '' @ apos @ ''alice'' @ apos
                    @ '' has already voted on ballot '' @ apos @ B1 @ apos @ ''.''))
        \<and> snd (cast_vote py T_mid K2 ex_voted B1 ''alice'' ''No'') = ex_voted"
    by simp
qed

section \<open>The guards of cast_vote\<close>

lemma find_vote_iff:
  "(find (\<lambda>v. voter_id v = v_id \<and> Vote.ballot_id v = b_id) vs \<noteq> None)
     = ((v_id, b_id) \<in> set (map (\<lambda>w. (voter_id w, Vote.ballot_id w)) vs))"
  by (induction vs) auto






lemma cast_already_voted:
  "get_ballot d b_id = Some ballot \<Longrightarrow> is_active ballot \<Longrightarrow> start_time ballot \<le> now \<Longrightarrow>
   now \<le> end_time ballot \<Longrightarrow> ch \<in> set (options ballot) \<Longrightarrow>
   validate_eligibility d v_id b_id \<Longrightarrow>
   (v_id, b_id) \<in> set (map (\<lambda>w. (voter_id w, Vote.ballot_id w)) (votes d)) \<Longrightarrow>
   fst (cast_vote py now uuid8 d b_id v_id ch)
     = Inl (ValueError (''Voter '' @ apos @ v_id @ apos
              @ '' has already voted on ballot '' @ apos @ b_id @ apos @ ''.''))"
  using find_vote_iff [of v_id b_id "votes d"]
  by (simp add: get_ballot_def cast_vote_def not_less [symmetric])




section \<open>The voting window\<close>




section \<open>Creating a ballot\<close>

lemma create_ballot_too_few:
  "length opts < 2 \<Longrightarrow>
   create_ballot now uid d ttl descr opts st et
     = (Inl (ValueError ''A ballot must have at least 2 options.''), d)"
  by (simp add: create_ballot_def)

lemma create_ballot_fresh:
  "2 \<le> length opts \<Longrightarrow> uid \<notin> set (map Ballot.id (ballots d)) \<Longrightarrow>
   create_ballot now uid d ttl descr opts st et
     = (Inr \<lparr>Ballot.id = uid, title = ttl, description = descr, options = opts,
              start_time = st, end_time = et, is_active = True, created_at = now\<rparr>,
        d\<lparr>ballots := ballots d @
              [\<lparr>Ballot.id = uid, title = ttl, description = descr, options = opts,
                start_time = st, end_time = et, is_active = True, created_at = now\<rparr>]\<rparr>)"
  by (simp add: create_ballot_def insert_ballot_def Let_def)

lemma create_ballot_Inr:
  "fst (create_ballot now uid d ttl descr opts st et) = Inr b \<Longrightarrow>
   2 \<le> length opts \<and> uid \<notin> set (map Ballot.id (ballots d))
   \<and> b = \<lparr>Ballot.id = uid, title = ttl, description = descr, options = opts,
           start_time = st, end_time = et, is_active = True, created_at = now\<rparr>
   \<and> snd (create_ballot now uid d ttl descr opts st et) = d\<lparr>ballots := ballots d @ [b]\<rparr>"
  by (auto simp: create_ballot_def insert_ballot_def Let_def split: if_splits)

lemma create_ballot_Inl:
  "fst (create_ballot now uid d ttl descr opts st et) = Inl e \<Longrightarrow>
   snd (create_ballot now uid d ttl descr opts st et) = d"
  by (auto simp: create_ballot_def insert_ballot_def Let_def split: if_splits)

text \<open>
  C8 as the code has it. With fewer than two options \<open>create_ballot\<close> fails with the
  "at least 2 options" \<^verbatim>\<open>ValueError\<close>, and whenever it fails it stores nothing. With at
  least two options and a drawn id that no stored ballot has, it returns a ballot with
  that id, \<open>is_active\<close> true and exactly the given title, description, options,
  \<open>start_time\<close> and \<open>end_time\<close>, and appends this one row. Whenever it returns a
  ballot, the ballot's id is the id of no ballot stored before, and ids that were
  pairwise different stay so.
\<close>

theorem create_ballot_result:
  "(length opts < 2 \<longrightarrow>
      create_ballot now uid d ttl descr opts st et
        = (Inl (ValueError ''A ballot must have at least 2 options.''), d))
   \<and> (\<forall>e. fst (create_ballot now uid d ttl descr opts st et) = Inl e \<longrightarrow>
          snd (create_ballot now uid d ttl descr opts st et) = d)
   \<and> (2 \<le> length opts \<and> uid \<notin> set (map Ballot.id (ballots d)) \<longrightarrow>
        fst (create_ballot now uid d ttl descr opts st et)
          = Inr \<lparr>Ballot.id = uid, title = ttl, description = descr, options = opts,
                 start_time = st, end_time = et, is_active = True, created_at = now\<rparr>)
   \<and> (\<forall>b. fst (create_ballot now uid d ttl descr opts st et) = Inr b \<longrightarrow>
          Ballot.id b \<notin> set (map Ballot.id (ballots d))
        \<and> is_active b \<and> Ballot.title b = ttl \<and> description b = descr \<and> options b = opts
        \<and> start_time b = st \<and> end_time b = et
        \<and> ballots (snd (create_ballot now uid d ttl descr opts st et)) = ballots d @ [b]
        \<and> votes (snd (create_ballot now uid d ttl descr opts st et)) = votes d
        \<and> eligible_voters (snd (create_ballot now uid d ttl descr opts st et))
            = eligible_voters d
        \<and> (distinct (map Ballot.id (ballots d)) \<longrightarrow>
             distinct (map Ballot.id
                        (ballots (snd (create_ballot now uid d ttl descr opts st et))))))"
proof (intro conjI allI impI)
  show "length opts < 2 \<Longrightarrow>
      create_ballot now uid d ttl descr opts st et
        = (Inl (ValueError ''A ballot must have at least 2 options.''), d)"
    by (rule create_ballot_too_few)
  show "fst (create_ballot now uid d ttl descr opts st et) = Inl e \<Longrightarrow>
          snd (create_ballot now uid d ttl descr opts st et) = d" for e
    by (rule create_ballot_Inl)
  show "2 \<le> length opts \<and> uid \<notin> set (map Ballot.id (ballots d)) \<Longrightarrow>
        fst (create_ballot now uid d ttl descr opts st et)
          = Inr \<lparr>Ballot.id = uid, title = ttl, description = descr, options = opts,
                 start_time = st, end_time = et, is_active = True, created_at = now\<rparr>"
    by (simp add: create_ballot_fresh)
next
  fix b
  assume r: "fst (create_ballot now uid d ttl descr opts st et) = Inr b"
  note c = create_ballot_Inr [OF r]
  from c show "Ballot.id b \<notin> set (map Ballot.id (ballots d))" by simp
  from c show "is_active b" "Ballot.title b = ttl" "description b = descr" "options b = opts"
    "start_time b = st" "end_time b = et" by simp_all
  from c show "ballots (snd (create_ballot now uid d ttl descr opts st et)) = ballots d @ [b]"
    "votes (snd (create_ballot now uid d ttl descr opts st et)) = votes d"
    "eligible_voters (snd (create_ballot now uid d ttl descr opts st et)) = eligible_voters d"
    by simp_all
  assume "distinct (map Ballot.id (ballots d))"
  with c show "distinct (map Ballot.id
                        (ballots (snd (create_ballot now uid d ttl descr opts st et))))"
    by simp
qed

theorem create_ballot_result_witness:
  "create_ballot T_mid B2 ex_registered ''Parks'' ''Fund the parks'' [''For''] T_open T_close
     = (Inl (ValueError ''A ballot must have at least 2 options.''), ex_registered)
   \<and> create_ballot T_mid B2 ex_registered ''Parks'' ''Fund the parks'' [] T_open T_close
     = (Inl (ValueError ''A ballot must have at least 2 options.''), ex_registered)
   \<and> B2 \<notin> set (map Ballot.id (ballots ex_registered))
   \<and> fst (create_ballot T_mid B2 ex_registered ''Parks'' ''Fund the parks''
            [''For'', ''Against''] T_open T_close)
       = Inr \<lparr>Ballot.id = B2, title = ''Parks'', description = ''Fund the parks'',
              options = [''For'', ''Against''], start_time = T_open, end_time = T_close,
              is_active = True, created_at = T_mid\<rparr>
   \<and> map Ballot.id (ballots (snd (create_ballot T_mid B2 ex_registered ''Parks''
            ''Fund the parks'' [''For'', ''Against''] T_open T_close))) = [B1, B2]"
proof -
  have fresh: "B2 \<notin> set (map Ballot.id (ballots ex_registered))"
    by (simp add: ex_registered_def b1_def)
  note c = create_ballot_result [of _ T_mid B2 ex_registered "''Parks''" "''Fund the parks''"
      T_open T_close]
  from fresh c [of "[''For'']"] c [of "[]"] c [of "[''For'', ''Against'']"]
  show ?thesis
    by (simp add: ex_registered_def b1_def)
qed

text \<open>
  The claim as written fails when the eight characters drawn from the UUID are the id of
  a stored ballot: the primary key rejects the row and no ballot is returned.
\<close>

theorem create_ballot_id_collision:
  "fst (create_ballot T_mid B1 ex_registered ''Parks'' ''Fund the parks''
          [''For'', ''Against''] T_open T_close) = Inl IntegrityError"
  by (simp add: create_ballot_def insert_ballot_def ex_registered_def b1_def)

section \<open>Exactly-once voting\<close>

lemma votes_create_ballot:
  "votes (snd (create_ballot now uid d ttl descr opts st et)) = votes d"
  by (simp add: create_ballot_def insert_ballot_def Let_def)

lemma votes_register_voter:
  "votes (snd (register_voter now d v_id b_id)) = votes d"
  by (simp add: register_voter_def)

lemma votes_close_ballot:
  "votes (snd (close_ballot d b_id)) = votes d"
  by (simp add: close_ballot_def)

lemma insert_vote_Inr:
  "insert_vote d v = Inr d' \<Longrightarrow>
   d' = d\<lparr>votes := votes d @ [v]\<rparr>
   \<and> Vote.id v \<notin> set (map Vote.id (votes d))
   \<and> (voter_id v, Vote.ballot_id v) \<notin> set (map (\<lambda>w. (voter_id w, Vote.ballot_id w)) (votes d))"
  by (auto simp: insert_vote_def split: if_splits)

lemma cast_vote_cases:
  "snd (cast_vote py now uid d b_id v_id ch) = d
   \<or> (\<exists>v. fst (cast_vote py now uid d b_id v_id ch) = Inr v
          \<and> insert_vote d v = Inr (snd (cast_vote py now uid d b_id v_id ch))
          \<and> v = \<lparr>Vote.id = uid, voter_id = v_id, ballot_id = b_id, choice = ch,
                  timestamp = now, signature = sign py v_id b_id ch now\<rparr>
          \<and> (\<exists>ballot. get_ballot d b_id = Some ballot \<and> ch \<in> set (options ballot)))"
  by (simp add: cast_vote_def get_ballot_def Let_def split: option.splits sum.splits)

lemma one_vote_cast_vote:
  "one_vote_per_pair d \<Longrightarrow> one_vote_per_pair (snd (cast_vote py now uid d b_id v_id ch))"
  using cast_vote_cases [of py now uid d b_id v_id ch]
  by (auto simp: one_vote_per_pair_def dest!: insert_vote_Inr)

lemma reachable_one_vote: "reachable d \<Longrightarrow> one_vote_per_pair d"
proof (induction rule: reachable.induct)
  case r_empty
  show ?case by (simp add: one_vote_per_pair_def empty_db_def)
next
  case (r_cast d py now uuid8 b_id v_id ch)
  then show ?case by (simp add: one_vote_cast_vote)
qed (simp_all add: one_vote_per_pair_def votes_create_ballot votes_register_voter
    votes_close_ballot)

lemma cast_vote_duplicate_fails:
  assumes "(v_id, b_id) \<in> set (map (\<lambda>w. (voter_id w, Vote.ballot_id w)) (votes d))"
  shows "\<exists>e. cast_vote py now uid d b_id v_id ch = (Inl e, d)"
  using assms find_vote_iff [of v_id b_id "votes d"]
  by (simp add: cast_vote_def insert_vote_def Let_def split: option.splits)

lemma insert_vote_duplicate:
  "(voter_id v, Vote.ballot_id v) \<in> set (map (\<lambda>w. (voter_id w, Vote.ballot_id w)) (votes d))
   \<Longrightarrow> insert_vote d v = Inl IntegrityError"
  by (simp add: insert_vote_def)


lemma reachable_ex_registered: "reachable ex_registered"
proof -
  have "reachable (snd (register_voter T_created
          (snd (create_ballot T_created B1 empty_db ''Budget'' ''Adopt the budget''
                  [''Yes'', ''No''] T_open T_close)) ''alice'' B1))"
    by (intro r_register r_create r_empty)
  also have "snd (register_voter T_created
          (snd (create_ballot T_created B1 empty_db ''Budget'' ''Adopt the budget''
                  [''Yes'', ''No''] T_open T_close)) ''alice'' B1) = ex_registered"
    by (simp add: register_voter_def create_ballot_def insert_ballot_def empty_db_def
        ex_registered_def b1_def Let_def)
  finally show ?thesis .
qed

lemma cast_ex_registered:
  "cast_vote py T_mid K1 ex_registered B1 ''alice'' ''Yes'' = (Inr (vote_a py), ex_cast py)"
  by (simp add: cast_vote_def insert_vote_def validate_eligibility_def ex_registered_def
      ex_cast_def vote_a_def b1_def Let_def)

lemma reachable_ex_cast: "reachable (ex_cast py)"
  using r_cast [OF reachable_ex_registered, of py T_mid K1 B1 "''alice''" "''Yes''"]
  by (simp add: cast_ex_registered)

text \<open>
  C1 as the code has it. In every reachable store no two votes share
  \<open>(voter_id, ballot_id)\<close>, and each of the four writing operations keeps it so from any
  store. A cast for a pair that already has a vote always fails and leaves the store as
  it was; the failure is the "already voted" error when the five earlier checks pass
  (otherwise the first failing check reports its own error). The table constraint alone
  rejects the insertion of a second vote for a pair, whatever was checked before.
\<close>

theorem exactly_once:
  "(reachable d \<longrightarrow> one_vote_per_pair d)
   \<and> (one_vote_per_pair d \<longrightarrow>
        one_vote_per_pair (snd (create_ballot now uid d ttl descr opts st et))
      \<and> one_vote_per_pair (snd (register_voter now d v_id b_id))
      \<and> one_vote_per_pair (snd (cast_vote py now uid d b_id v_id ch))
      \<and> one_vote_per_pair (snd (close_ballot d b_id)))
   \<and> ((v_id, b_id) \<in> set (map (\<lambda>w. (voter_id w, Vote.ballot_id w)) (votes d)) \<longrightarrow>
        (\<exists>e. cast_vote py now uid d b_id v_id ch = (Inl e, d))
      \<and> (\<forall>ballot. get_ballot d b_id = Some ballot \<and> is_active ballot
             \<and> start_time ballot \<le> now \<and> now \<le> end_time ballot
             \<and> ch \<in> set (options ballot) \<and> validate_eligibility d v_id b_id \<longrightarrow>
             fst (cast_vote py now uid d b_id v_id ch)
               = Inl (ValueError (''Voter '' @ apos @ v_id @ apos
                        @ '' has already voted on ballot '' @ apos @ b_id @ apos @ ''.''))))
   \<and> ((voter_id v, Vote.ballot_id v)
          \<in> set (map (\<lambda>w. (voter_id w, Vote.ballot_id w)) (votes d)) \<longrightarrow>
        (\<exists>e. insert_vote d v = Inl e))"
proof (intro conjI impI allI)
  show "reachable d \<Longrightarrow> one_vote_per_pair d"
    by (rule reachable_one_vote)
  show "one_vote_per_pair d \<Longrightarrow>
        one_vote_per_pair (snd (create_ballot now uid d ttl descr opts st et))"
    "one_vote_per_pair d \<Longrightarrow> one_vote_per_pair (snd (register_voter now d v_id b_id))"
    "one_vote_per_pair d \<Longrightarrow> one_vote_per_pair (snd (close_ballot d b_id))"
    by (simp_all add: one_vote_per_pair_def votes_create_ballot votes_register_voter
        votes_close_ballot)
  show "one_vote_per_pair d \<Longrightarrow> one_vote_per_pair (snd (cast_vote py now uid d b_id v_id ch))"
    by (rule one_vote_cast_vote)
  show "(v_id, b_id) \<in> set (map (\<lambda>w. (voter_id w, Vote.ballot_id w)) (votes d)) \<Longrightarrow>
        \<exists>e. cast_vote py now uid d b_id v_id ch = (Inl e, d)"
    by (rule cast_vote_duplicate_fails)
  show "(voter_id v, Vote.ballot_id v)
          \<in> set (map (\<lambda>w. (voter_id w, Vote.ballot_id w)) (votes d)) \<Longrightarrow>
        \<exists>e. insert_vote d v = Inl e"
    by (simp add: insert_vote_duplicate)
next
  fix ballot
  assume dup: "(v_id, b_id) \<in> set (map (\<lambda>w. (voter_id w, Vote.ballot_id w)) (votes d))"
    and g: "get_ballot d b_id = Some ballot \<and> is_active ballot
             \<and> start_time ballot \<le> now \<and> now \<le> end_time ballot
             \<and> ch \<in> set (options ballot) \<and> validate_eligibility d v_id b_id"
  from g dup show "fst (cast_vote py now uid d b_id v_id ch)
               = Inl (ValueError (''Voter '' @ apos @ v_id @ apos
                        @ '' has already voted on ballot '' @ apos @ b_id @ apos @ ''.''))"
    by (intro cast_already_voted [of d b_id ballot]) simp_all
qed

theorem exactly_once_witness:
  "\<forall>py.
     reachable (ex_cast py)
   \<and> one_vote_per_pair (ex_cast py)
   \<and> one_vote_per_pair (snd (cast_vote py T_mid K2 (ex_cast py) B1 ''alice'' ''No''))
   \<and> (''alice'', B1) \<in> set (map (\<lambda>w. (voter_id w, Vote.ballot_id w)) (votes (ex_cast py)))
   \<and> get_ballot (ex_cast py) B1 = Some b1
   \<and> cast_vote py T_mid K2 (ex_cast py) B1 ''alice'' ''No''
       = (Inl (ValueError (''Voter '' @ apos @ ''alice'' @ apos
                 @ '' has already voted on ballot '' @ apos @ B1 @ apos @ ''.'')), ex_cast py)
   \<and> insert_vote (ex_cast py) (vote_b py) = Inl IntegrityError"
proof
  fix py
  have dup: "(''alice'', B1) \<in> set (map (\<lambda>w. (voter_id w, Vote.ballot_id w)) (votes (ex_cast py)))"
    and dup': "(voter_id (vote_b py), Vote.ballot_id (vote_b py))
                 \<in> set (map (\<lambda>w. (voter_id w, Vote.ballot_id w)) (votes (ex_cast py)))"
    by (simp_all add: ex_cast_def vote_a_def vote_b_def)
  have some: "get_ballot (ex_cast py) B1 = Some b1"
    by (simp add: get_ballot_def ex_cast_def b1_def)
  have g: "is_active b1" "start_time b1 \<le> T_mid" "T_mid \<le> end_time b1"
    "''No'' \<in> set (options b1)" "validate_eligibility (ex_cast py) ''alice'' B1"
    by (simp_all add: b1_def validate_eligibility_def ex_cast_def)
  note e = exactly_once [of "ex_cast py" T_mid K2 _ _ _ _ _ "''alice''" B1 py "''No''" "vote_b py"]
  from e reachable_ex_cast [of py] have inv: "one_vote_per_pair (ex_cast py)"
    by blast
  with e have inv': "one_vote_per_pair (snd (cast_vote py T_mid K2 (ex_cast py) B1 ''alice'' ''No''))"
    by blast
  from e dup some g have
    "fst (cast_vote py T_mid K2 (ex_cast py) B1 ''alice'' ''No'')
       = Inl (ValueError (''Voter '' @ apos @ ''alice'' @ apos
                 @ '' has already voted on ballot '' @ apos @ B1 @ apos @ ''.''))"
    by blast
  moreover from e dup obtain e' where
    "cast_vote py T_mid K2 (ex_cast py) B1 ''alice'' ''No'' = (Inl e', ex_cast py)"
    by blast
  ultimately have c: "cast_vote py T_mid K2 (ex_cast py) B1 ''alice'' ''No''
       = (Inl (ValueError (''Voter '' @ apos @ ''alice'' @ apos
                 @ '' has already voted on ballot '' @ apos @ B1 @ apos @ ''.'')), ex_cast py)"
    by simp
  from e dup' obtain e'' where "insert_vote (ex_cast py) (vote_b py) = Inl e''"
    by blast
  then have i: "insert_vote (ex_cast py) (vote_b py) = Inl IntegrityError"
    by (simp add: insert_vote_def split: if_splits)
  from reachable_ex_cast [of py] inv inv' dup some c i
  show "reachable (ex_cast py)
   \<and> one_vote_per_pair (ex_cast py)
   \<and> one_vote_per_pair (snd (cast_vote py T_mid K2 (ex_cast py) B1 ''alice'' ''No''))
   \<and> (''alice'', B1) \<in> set (map (\<lambda>w. (voter_id w, Vote.ballot_id w)) (votes (ex_cast py)))
   \<and> get_ballot (ex_cast py) B1 = Some b1
   \<and> cast_vote py T_mid K2 (ex_cast py) B1 ''alice'' ''No''
       = (Inl (ValueError (''Voter '' @ apos @ ''alice'' @ apos
                 @ '' has already voted on ballot '' @ apos @ B1 @ apos @ ''.'')), ex_cast py)
   \<and> insert_vote (ex_cast py) (vote_b py) = Inl IntegrityError"
    by blast
qed

text \<open>
  The claim as written fails in two ways. A cast for a pair that has a vote reports an
  earlier check's error when one fails: after the ballot is closed, "is closed". And
  when two casts for one pair both read the store before either writes, both pass the
  six checks; the second insertion then meets the first one's row and the table
  constraint raises \<^verbatim>\<open>sqlite3.IntegrityError\<close>, not the "already voted"
  \<^verbatim>\<open>ValueError\<close>.
\<close>

theorem duplicate_not_always_conflict:
  "\<forall>py.
     (''alice'', B1) \<in> set (map (\<lambda>w. (voter_id w, Vote.ballot_id w))
                               (votes (snd (close_ballot (ex_cast py) B1))))
   \<and> fst (cast_vote py T_mid K2 (snd (close_ballot (ex_cast py) B1)) B1 ''alice'' ''No'')
       = Inl (ValueError (''Ballot '' @ apos @ B1 @ apos @ '' is closed.''))
   \<and> cast_vote py T_mid K1 ex_registered B1 ''alice'' ''Yes'' = (Inr (vote_a py), ex_cast py)
   \<and> fst (cast_vote py T_mid K2 ex_registered B1 ''alice'' ''No'') = Inr (vote_b py)
   \<and> insert_vote (ex_cast py) (vote_b py) = Inl IntegrityError"
  by (simp add: cast_vote_def insert_vote_def close_ballot_def validate_eligibility_def
      ex_registered_def ex_cast_def vote_a_def vote_b_def b1_def Let_def)

section \<open>Signatures\<close>






section \<open>Counting\<close>


lemma fold_update_dom:
  "fst ` set (fold (\<lambda>x al. AList.update (kf x) (vf x) al) xs al0) = kf ` set xs \<union> fst ` set al0"
  by (induction xs arbitrary: al0) (auto simp: dom_update)

lemma fold_update_distinct:
  "distinct (map fst al0) \<Longrightarrow>
   distinct (map fst (fold (\<lambda>x al. AList.update (kf x) (vf x) al) xs al0))"
  by (induction xs arbitrary: al0) (simp_all add: distinct_update)

lemma set_update_subset: "set (AList.update k v al) \<subseteq> insert (k, v) (set al)"
  by (induction al) auto

lemma fold_update_const_values:
  "\<forall>p \<in> set al0. snd p = c \<Longrightarrow> \<forall>x \<in> set xs. vf x = c \<Longrightarrow>
   \<forall>p \<in> set (fold (\<lambda>x al. AList.update (kf x) (vf x) al) xs al0). snd p = c"
proof (induction xs arbitrary: al0)
  case Nil
  then show ?case by simp
next
  case (Cons x xs)
  from Cons.prems have "\<forall>p \<in> set (AList.update (kf x) (vf x) al0). snd p = c"
    using set_update_subset [of "kf x" "vf x" al0] by auto
  with Cons show ?case by simp
qed




lemma sum_update_incr:
  "map_of al k = Some n \<Longrightarrow>
   sum_list (map snd (AList.update k (n + 1) al)) = sum_list (map snd al) + (1::int)"
  by (induction al) (auto split: if_splits)

lemma count_votes_total:
  "sum_list (map snd (count_votes cnts cs))
     = sum_list (map snd cnts) + int (length (filter (\<lambda>c. c \<in> fst ` set cnts) cs))"
proof (induction cs arbitrary: cnts)
  case Nil
  show ?case by (simp add: count_votes_def)
next
  case (Cons c cs)
  show ?case
  proof (cases "map_of cnts c")
    case None
    then have "c \<notin> fst ` set cnts"
      by (simp add: map_of_eq_None_iff)
    with None Cons [of cnts] show ?thesis by (simp add: count_votes_def)
  next
    case (Some n)
    then have in_keys: "c \<in> fst ` set cnts"
      by (metis map_of_eq_None_iff option.distinct(1))
    then have "fst ` set (AList.update c (n + 1) cnts) = fst ` set cnts"
      by (auto simp: dom_update)
    with Some in_keys Cons [of "AList.update c (n + 1) cnts"] show ?thesis
      by (simp add: count_votes_def sum_update_incr)
  qed
qed

lemma max_from_first_max:
  assumes "(m, mv) \<in> set pre" "\<forall>p \<in> set pre. snd p \<le> mv"
    "\<forall>p \<in> set (takeWhile (\<lambda>p. fst p \<noteq> m) pre). snd p < mv"
  shows "\<exists>rv. (max_from m mv kvs, rv) \<in> set (pre @ kvs)
           \<and> (\<forall>p \<in> set (pre @ kvs). snd p \<le> rv)
           \<and> (\<forall>p \<in> set (takeWhile (\<lambda>p. fst p \<noteq> max_from m mv kvs) (pre @ kvs)). snd p < rv)"
  using assms
proof (induction kvs arbitrary: pre m mv)
  case Nil
  then show ?case by auto
next
  case (Cons kv kvs)
  obtain k v where kv: "kv = (k, v)" by (cases kv)
  show ?case
  proof (cases "v > mv")
    case True
    have 1: "(k, v) \<in> set (pre @ [(k, v)])" by simp
    have 2: "\<forall>p \<in> set (pre @ [(k, v)]). snd p \<le> v"
      using Cons.prems(2) True by auto
    have 3: "\<forall>p \<in> set (takeWhile (\<lambda>p. fst p \<noteq> k) (pre @ [(k, v)])). snd p < v"
    proof
      fix p
      assume "p \<in> set (takeWhile (\<lambda>p. fst p \<noteq> k) (pre @ [(k, v)]))"
      then have "p \<in> set (pre @ [(k, v)])" "fst p \<noteq> k"
        by (auto dest: set_takeWhileD)
      then have "p \<in> set pre" by auto
      with Cons.prems(2) True show "snd p < v" by fastforce
    qed
    from Cons.IH [OF 1 2 3] True kv show ?thesis by simp
  next
    case False
    have 1: "(m, mv) \<in> set (pre @ [(k, v)])" using Cons.prems(1) by simp
    have 2: "\<forall>p \<in> set (pre @ [(k, v)]). snd p \<le> mv"
      using Cons.prems(2) False by auto
    have "takeWhile (\<lambda>p. fst p \<noteq> m) (pre @ [(k, v)]) = takeWhile (\<lambda>p. fst p \<noteq> m) pre"
      using Cons.prems(1) by (intro takeWhile_append1 [of "(m, mv)"]) simp_all
    with Cons.prems(3)
    have 3: "\<forall>p \<in> set (takeWhile (\<lambda>p. fst p \<noteq> m) (pre @ [(k, v)])). snd p < mv"
      by simp
    from Cons.IH [OF 1 2 3] False kv show ?thesis by simp
  qed
qed

lemma py_max_key_first_max:
  assumes "kvs \<noteq> []"
  shows "\<exists>w rv. py_max_key kvs = Some w \<and> (w, rv) \<in> set kvs
           \<and> (\<forall>p \<in> set kvs. snd p \<le> rv)
           \<and> (\<forall>p \<in> set (takeWhile (\<lambda>p. fst p \<noteq> w) kvs). snd p < rv)"
proof -
  from assms obtain k v rest where kvs: "kvs = (k, v) # rest"
    by (cases kvs) auto
  from max_from_first_max [of k v "[(k, v)]" rest] kvs show ?thesis
    by (simp add: py_max_key_def)
qed


lemma sum_list_all_zero: "\<forall>p \<in> set al. snd p = (0::int) \<Longrightarrow> sum_list (map snd al) = 0"
  by (induction al) auto

lemma tally_found:
  assumes "get_ballot d b_id = Some ballot"
  shows "\<exists>s. tally py d b_id = Inr s
     \<and> Summary.ballot_id s = b_id \<and> Summary.title s = Ballot.title ballot
     \<and> counts s = count_votes (fold (\<lambda>opt cnts. AList.update opt 0 cnts) (options ballot) [])
                     (map choice (filter (\<lambda>v. Vote.ballot_id v = b_id) (votes d)))
     \<and> total_votes s = sum_list (map snd (counts s))
     \<and> percentages s
         = fold (\<lambda>(opt, cnt) p.
                   AList.update opt
                     (if total_votes s \<noteq> 0 then round_percent py cnt (total_votes s) else 0) p)
                (counts s) []
     \<and> winner s = (if total_votes s \<noteq> 0 then py_max_key (counts s) else None)"
proof -
  define cnts where
    "cnts = count_votes (fold (\<lambda>opt cnts. AList.update opt 0 cnts) (options ballot) [])
              (map choice (filter (\<lambda>v. Vote.ballot_id v = b_id) (votes d)))"
  show ?thesis
  proof (cases "sum_list (map snd cnts) = 0")
    case True
    with assms show ?thesis
      by (simp add: tally_def get_ballot_def Let_def cnts_def)
  next
    case False
    then have "cnts \<noteq> []" by auto
    then obtain w where "py_max_key cnts = Some w"
      using py_max_key_first_max [of cnts] by blast
    with assms False show ?thesis
      by (simp add: tally_def get_ballot_def Let_def cnts_def)
  qed
qed

lemma initial_counts:
  "fst ` set (fold (\<lambda>opt cnts. AList.update opt (0::int) cnts) opts []) = set opts"
  "distinct (map fst (fold (\<lambda>opt cnts. AList.update opt (0::int) cnts) opts []))"
  "\<forall>p \<in> set (fold (\<lambda>opt cnts. AList.update opt (0::int) cnts) opts []). snd p = 0"
  using fold_update_dom [of "\<lambda>x. x" "\<lambda>x. 0::int" opts "[]"]
    fold_update_distinct [of "[]" "\<lambda>x. x" "\<lambda>x. 0::int" opts]
    fold_update_const_values [of "[]" "0::int" opts "\<lambda>x. 0" "\<lambda>x. x"]
  by simp_all

section \<open>Tally of a ballot without votes\<close>

text \<open>
  C5. For a ballot that exists and has no vote, \<open>tally\<close> returns a summary with
  \<open>total_votes = 0\<close> and no winner, whose \<open>counts\<close> and \<open>percentages\<close> have exactly the
  declared options as keys, each with count \<open>0\<close> and percentage \<open>0.0\<close>.
\<close>

theorem tally_no_votes:
  assumes "get_ballot d b_id = Some ballot"
    and "\<forall>v \<in> set (votes d). Vote.ballot_id v \<noteq> b_id"
  shows "\<exists>s. tally py d b_id = Inr s \<and> total_votes s = 0 \<and> winner s = None
           \<and> fst ` set (counts s) = set (options ballot)
           \<and> fst ` set (percentages s) = set (options ballot)
           \<and> (\<forall>opt \<in> set (options ballot).
                  map_of (counts s) opt = Some 0 \<and> map_of (percentages s) opt = Some 0)"
proof -
  from assms(2) have none: "filter (\<lambda>v. Vote.ballot_id v = b_id) (votes d) = []"
    by (simp add: filter_empty_conv)
  from tally_found [OF assms(1), of py] obtain s where s: "tally py d b_id = Inr s"
    and c: "counts s = count_votes (fold (\<lambda>opt cnts. AList.update opt 0 cnts) (options ballot) [])
                     (map choice (filter (\<lambda>v. Vote.ballot_id v = b_id) (votes d)))"
    and t: "total_votes s = sum_list (map snd (counts s))"
    and p: "percentages s
         = fold (\<lambda>(opt, cnt) p.
                   AList.update opt
                     (if total_votes s \<noteq> 0 then round_percent py cnt (total_votes s) else 0) p)
                (counts s) []"
    and w: "winner s = (if total_votes s \<noteq> 0 then py_max_key (counts s) else None)"
    by blast
  from c none have c0: "counts s = fold (\<lambda>opt cnts. AList.update opt 0 cnts) (options ballot) []"
    by (simp add: count_votes_def)
  have keys: "fst ` set (counts s) = set (options ballot)"
    and dist: "distinct (map fst (counts s))"
    and zero: "\<forall>p \<in> set (counts s). snd p = 0"
    by (simp_all add: c0 initial_counts)
  from zero t have total: "total_votes s = 0"
    by (simp add: sum_list_all_zero)
  with w have win: "winner s = None" by simp
  from p total have p0: "percentages s
      = fold (\<lambda>x al. AList.update (fst x) ((\<lambda>x. 0) x) al) (counts s) []"
    by (simp add: case_prod_beta')
  have pkeys: "fst ` set (percentages s) = set (options ballot)"
    unfolding p0 using fold_update_dom [of fst "\<lambda>x. 0::real" "counts s" "[]"] keys by simp
  have pdist: "distinct (map fst (percentages s))"
    unfolding p0 by (rule fold_update_distinct) simp
  have pzero: "\<forall>q \<in> set (percentages s). snd q = 0"
    unfolding p0 by (rule fold_update_const_values) simp_all
  have "map_of (counts s) opt = Some 0 \<and> map_of (percentages s) opt = Some 0"
    if "opt \<in> set (options ballot)" for opt
  proof -
    from that keys obtain n where "(opt, n) \<in> set (counts s)" by force
    with zero dist have 1: "map_of (counts s) opt = Some 0" by fastforce
    from that pkeys obtain r where "(opt, r) \<in> set (percentages s)" by force
    with pzero pdist have "map_of (percentages s) opt = Some 0" by fastforce
    with 1 show ?thesis by simp
  qed
  with s total win keys pkeys show ?thesis by blast
qed

theorem tally_no_votes_witness:
  "\<forall>py. get_ballot ex_registered B1 = Some b1
       \<and> votes ex_registered = []
       \<and> tally py ex_registered B1
           = Inr \<lparr>Summary.ballot_id = B1, title = ''Budget'', total_votes = 0,
                  counts = [(''Yes'', 0), (''No'', 0)],
                  percentages = [(''Yes'', 0), (''No'', 0)], winner = None\<rparr>"
proof
  fix py
  have g: "get_ballot ex_registered B1 = Some b1"
    by (simp add: get_ballot_def ex_registered_def b1_def)
  have v: "votes ex_registered = []"
    by (simp add: ex_registered_def)
  then have n: "\<forall>v \<in> set (votes ex_registered). Vote.ballot_id v \<noteq> B1"
    by simp
  have t: "tally py ex_registered B1
           = Inr \<lparr>Summary.ballot_id = B1, title = ''Budget'', total_votes = 0,
                  counts = [(''Yes'', 0), (''No'', 0)],
                  percentages = [(''Yes'', 0), (''No'', 0)], winner = None\<rparr>"
    using tally_no_votes [OF g n, of py]
    by (simp add: tally_def count_votes_def ex_registered_def b1_def Let_def)
  from g v t show "get_ballot ex_registered B1 = Some b1
       \<and> votes ex_registered = []
       \<and> tally py ex_registered B1
           = Inr \<lparr>Summary.ballot_id = B1, title = ''Budget'', total_votes = 0,
                  counts = [(''Yes'', 0), (''No'', 0)],
                  percentages = [(''Yes'', 0), (''No'', 0)], winner = None\<rparr>"
    by blast
qed

section \<open>The winner\<close>



section \<open>Export\<close>

lemma consistent_create_ballot:
  "store_consistent d \<Longrightarrow> store_consistent (snd (create_ballot now uid d ttl descr opts st et))"
  by (auto simp: store_consistent_def create_ballot_def insert_ballot_def Let_def)

lemma consistent_register_voter:
  "store_consistent d \<Longrightarrow> store_consistent (snd (register_voter now d v_id b_id))"
  by (simp add: store_consistent_def register_voter_def)

lemma consistent_close_ballot:
  assumes "store_consistent d"
  shows "store_consistent (snd (close_ballot d b_id))"
proof -
  let ?f = "\<lambda>b. if Ballot.id b = b_id then b\<lparr>is_active := False\<rparr> else b"
  have "Ballot.id \<circ> ?f = Ballot.id"
    by (auto simp: fun_eq_iff)
  then have ids: "map Ballot.id (map ?f (ballots d)) = map Ballot.id (ballots d)"
    by simp
  have ch: "\<exists>b' \<in> set (map ?f (ballots d)).
              Ballot.id b' = Vote.ballot_id v \<and> choice v \<in> set (options b')"
    if "v \<in> set (votes d)" for v
  proof -
    from assms that obtain b where "b \<in> set (ballots d)" "Ballot.id b = Vote.ballot_id v"
      "choice v \<in> set (options b)"
      by (auto simp: store_consistent_def)
    then have "?f b \<in> set (map ?f (ballots d))" "Ballot.id (?f b) = Vote.ballot_id v"
      "choice v \<in> set (options (?f b))"
      by simp_all
    then show ?thesis by blast
  qed
  have b: "ballots (snd (close_ballot d b_id)) = map ?f (ballots d)"
    and v: "votes (snd (close_ballot d b_id)) = votes d"
    by (simp_all add: close_ballot_def)
  from assms have "distinct (map Ballot.id (ballots d))"
    by (simp add: store_consistent_def)
  then have d1: "distinct (map Ballot.id (map ?f (ballots d)))"
    by (simp only: ids)
  from ch have d2: "\<forall>v \<in> set (votes d). \<exists>b' \<in> set (map ?f (ballots d)).
              Ballot.id b' = Vote.ballot_id v \<and> choice v \<in> set (options b')"
    by blast
  show ?thesis
    unfolding store_consistent_def b v by (intro conjI) (rule d1, rule d2)
qed

lemma consistent_cast_vote:
  assumes "store_consistent d"
  shows "store_consistent (snd (cast_vote py now uid d b_id v_id ch))"
proof -
  from cast_vote_cases [of py now uid d b_id v_id ch] show ?thesis
  proof
    assume "snd (cast_vote py now uid d b_id v_id ch) = d"
    with assms show ?thesis by simp
  next
    assume "\<exists>v. fst (cast_vote py now uid d b_id v_id ch) = Inr v
          \<and> insert_vote d v = Inr (snd (cast_vote py now uid d b_id v_id ch))
          \<and> v = \<lparr>Vote.id = uid, voter_id = v_id, ballot_id = b_id, choice = ch,
                  timestamp = now, signature = sign py v_id b_id ch now\<rparr>
          \<and> (\<exists>ballot. get_ballot d b_id = Some ballot \<and> ch \<in> set (options ballot))"
    then obtain v ballot where
      i: "insert_vote d v = Inr (snd (cast_vote py now uid d b_id v_id ch))"
      and v: "Vote.ballot_id v = b_id" "choice v = ch"
      and b: "get_ballot d b_id = Some ballot" "ch \<in> set (options ballot)"
      by auto
    from b(1) have "ballot \<in> set (ballots d)" "Ballot.id ballot = b_id"
      by (auto simp: get_ballot_def find_Some_iff)
    with v b(2) have "\<exists>b \<in> set (ballots d). Ballot.id b = Vote.ballot_id v \<and> choice v \<in> set (options b)"
      by blast
    with assms insert_vote_Inr [OF i] show ?thesis
      by (simp add: store_consistent_def)
  qed
qed

lemma reachable_consistent: "reachable d \<Longrightarrow> store_consistent d"
proof (induction rule: reachable.induct)
  case r_empty
  show ?case by (simp add: store_consistent_def empty_db_def)
qed (simp_all add: consistent_create_ballot consistent_register_voter consistent_cast_vote
    consistent_close_ballot)

lemma consistent_choices:
  assumes "store_consistent d" "get_ballot d b_id = Some ballot"
    "v \<in> set (votes d)" "Vote.ballot_id v = b_id"
  shows "choice v \<in> set (options ballot)"
proof -
  from assms(1,3,4) obtain b where b: "b \<in> set (ballots d)" "Ballot.id b = b_id"
    "choice v \<in> set (options b)"
    by (auto simp: store_consistent_def)
  from assms(2) have "ballot \<in> set (ballots d)" "Ballot.id ballot = b_id"
    by (auto simp: get_ballot_def find_Some_iff)
  with b(1,2) assms(1) have "b = ballot"
    by (auto simp: store_consistent_def distinct_map inj_on_def)
  with b(3) show ?thesis by simp
qed

lemma tally_total:
  assumes "get_ballot d b_id = Some ballot" "tally py d b_id = Inr s"
  shows "total_votes s
           = int (length (filter (\<lambda>v. Vote.ballot_id v = b_id \<and> choice v \<in> set (options ballot))
                            (votes d)))"
proof -
  from tally_found [OF assms(1), of py] assms(2)
  have c: "counts s = count_votes (fold (\<lambda>opt cnts. AList.update opt 0 cnts) (options ballot) [])
                     (map choice (filter (\<lambda>v. Vote.ballot_id v = b_id) (votes d)))"
    and t: "total_votes s = sum_list (map snd (counts s))"
    by auto
  have "length (filter (\<lambda>c. c \<in> set (options ballot))
                  (map choice (filter (\<lambda>v. Vote.ballot_id v = b_id) (votes d))))
        = length (filter (\<lambda>v. Vote.ballot_id v = b_id \<and> choice v \<in> set (options ballot))
                    (votes d))"
    by (induction "votes d") (simp_all add: filter_map comp_def conj_commute)
  then show ?thesis
    by (simp add: t c count_votes_total initial_counts sum_list_all_zero)
qed


text \<open>
  C9 as the code has it. For a ballot that exists, in a store where every vote on the
  ballot has one of the ballot's options as its choice, the \<open>total_votes\<close> of the
  summary in the JSON export equals the number of rows after the header in the CSV
  export (and the number of votes listed in the JSON export). Every store reachable
  through the operations is such a store.
\<close>

theorem export_total_matches_rows:
  assumes "get_ballot d b_id = Some ballot"
  shows "(reachable d \<longrightarrow>
            (\<forall>v \<in> set (votes d). Vote.ballot_id v = b_id \<longrightarrow> choice v \<in> set (options ballot)))
       \<and> ((\<forall>v \<in> set (votes d). Vote.ballot_id v = b_id \<longrightarrow> choice v \<in> set (options ballot))
            \<longrightarrow>
            (\<exists>s vs rows.
               export_results py d b_id ''json'' = Inr (JsonDoc s vs)
             \<and> export_results py d b_id ''csv''
                 = Inr (CsvDoc ([''voter_id'', ''ballot_id'', ''choice'', ''timestamp'',
                                 ''signature''] # rows))
             \<and> total_votes s = int (length rows) \<and> length vs = length rows))"
proof (intro conjI impI)
  assume "reachable d"
  then have "store_consistent d" by (rule reachable_consistent)
  with assms show "\<forall>v \<in> set (votes d). Vote.ballot_id v = b_id \<longrightarrow> choice v \<in> set (options ballot)"
    by (blast intro: consistent_choices)
next
  assume declared: "\<forall>v \<in> set (votes d). Vote.ballot_id v = b_id \<longrightarrow> choice v \<in> set (options ballot)"
  from tally_found [OF assms, of py] obtain s where s: "tally py d b_id = Inr s"
    by blast
  define vs where "vs = filter (\<lambda>v. Vote.ballot_id v = b_id) (votes d)"
  define rows where
    "rows = map (\<lambda>v. [voter_id v, Vote.ballot_id v, choice v, timestamp v, signature v]) vs"
  from declared have
    "filter (\<lambda>v. Vote.ballot_id v = b_id \<and> choice v \<in> set (options ballot)) (votes d) = vs"
    unfolding vs_def by (intro filter_cong) auto
  with tally_total [OF assms s] have "total_votes s = int (length rows)"
    by (simp add: rows_def)
  moreover have "export_results py d b_id ''json'' = Inr (JsonDoc s vs)"
    by (simp add: export_results_def s vs_def)
  moreover have "export_results py d b_id ''csv''
                 = Inr (CsvDoc ([''voter_id'', ''ballot_id'', ''choice'', ''timestamp'',
                                 ''signature''] # rows))"
    by (simp add: export_results_def s vs_def rows_def)
  moreover have "length vs = length rows"
    by (simp add: rows_def)
  ultimately show "\<exists>s vs rows.
               export_results py d b_id ''json'' = Inr (JsonDoc s vs)
             \<and> export_results py d b_id ''csv''
                 = Inr (CsvDoc ([''voter_id'', ''ballot_id'', ''choice'', ''timestamp'',
                                 ''signature''] # rows))
             \<and> total_votes s = int (length rows) \<and> length vs = length rows"
    by blast
qed

theorem export_total_matches_rows_witness:
  "\<forall>py. get_ballot (ex_cast py) B1 = Some b1
       \<and> reachable (ex_cast py)
       \<and> (\<exists>s. export_results py (ex_cast py) B1 ''json'' = Inr (JsonDoc s [vote_a py])
              \<and> total_votes s = 1)
       \<and> export_results py (ex_cast py) B1 ''csv''
           = Inr (CsvDoc [[''voter_id'', ''ballot_id'', ''choice'', ''timestamp'', ''signature''],
                          [''alice'', B1, ''Yes'', T_mid, sign py ''alice'' B1 ''Yes'' T_mid]])"
proof
  fix py
  have g: "get_ballot (ex_cast py) B1 = Some b1"
    by (simp add: get_ballot_def ex_cast_def b1_def)
  have r: "reachable (ex_cast py)"
    by (rule reachable_ex_cast)
  from export_total_matches_rows [OF g, of py] r obtain s vs rows where
    j: "export_results py (ex_cast py) B1 ''json'' = Inr (JsonDoc s vs)"
    and c: "export_results py (ex_cast py) B1 ''csv''
                 = Inr (CsvDoc ([''voter_id'', ''ballot_id'', ''choice'', ''timestamp'',
                                 ''signature''] # rows))"
    and t: "total_votes s = int (length rows)" "length vs = length rows"
    by blast
  have c': "export_results py (ex_cast py) B1 ''csv''
           = Inr (CsvDoc [[''voter_id'', ''ballot_id'', ''choice'', ''timestamp'', ''signature''],
                          [''alice'', B1, ''Yes'', T_mid, sign py ''alice'' B1 ''Yes'' T_mid]])"
    using c by (simp add: export_results_def ex_cast_def vote_a_def split: sum.splits)
  with c have "rows = [[''alice'', B1, ''Yes'', T_mid, sign py ''alice'' B1 ''Yes'' T_mid]]"
    by simp
  with t have t1: "total_votes s = 1" by simp
  have "vs = [vote_a py]"
    using j by (simp add: export_results_def ex_cast_def vote_a_def split: sum.splits)
  with j t1 have "\<exists>s. export_results py (ex_cast py) B1 ''json'' = Inr (JsonDoc s [vote_a py])
              \<and> total_votes s = 1"
    by blast
  with g r c' show "get_ballot (ex_cast py) B1 = Some b1
       \<and> reachable (ex_cast py)
       \<and> (\<exists>s. export_results py (ex_cast py) B1 ''json'' = Inr (JsonDoc s [vote_a py])
              \<and> total_votes s = 1)
       \<and> export_results py (ex_cast py) B1 ''csv''
           = Inr (CsvDoc [[''voter_id'', ''ballot_id'', ''choice'', ''timestamp'', ''signature''],
                          [''alice'', B1, ''Yes'', T_mid, sign py ''alice'' B1 ''Yes'' T_mid]])"
    by blast
qed

text \<open>
  The claim as written covers every store. A vote row whose choice is not an option of
  its ballot is left out of the counts and still exported: the JSON total is 0 and the
  CSV has one row.
\<close>

theorem export_total_differs:
  "\<forall>py. export_results py ex_foreign_choice B1 ''json''
           = Inr (JsonDoc \<lparr>Summary.ballot_id = B1, title = ''Budget'', total_votes = 0,
                           counts = [(''Yes'', 0), (''No'', 0)],
                           percentages = [(''Yes'', 0), (''No'', 0)], winner = None\<rparr>
                          [v1\<lparr>choice := ''Maybe''\<rparr>])
       \<and> export_results py ex_foreign_choice B1 ''csv''
           = Inr (CsvDoc [[''voter_id'', ''ballot_id'', ''choice'', ''timestamp'', ''signature''],
                          [''alice'', B1, ''Maybe'', T_mid, ''5d41'']])"
  by (simp add: export_results_def tally_def count_votes_def ex_foreign_choice_def b1_def v1_def
      Let_def)

end
